theory Spec2Isabelle
  imports Main "HOL-Library.Sublist" "HOL-Library.Multiset"
begin

section \<open>Python values used by the client\<close>

subsection \<open>Dictionaries\<close>

text \<open>
  A Python \<open>dict\<close> keeps its items in insertion order; assigning to a key that is already
  present replaces the value in place, assigning to a new key appends the item.
  \<open>d.update(e)\<close> assigns the items of \<open>e\<close> one after the other.
\<close>

type_synonym ('k, 'v) dict = "('k \<times> 'v) list"

fun dict_set :: "'k \<Rightarrow> 'v \<Rightarrow> ('k, 'v) dict \<Rightarrow> ('k, 'v) dict" where
  "dict_set k v [] = [(k, v)]"
| "dict_set k v ((k', v') # d) =
     (if k' = k then (k, v) # d else (k', v') # dict_set k v d)"

definition dict_update :: "('k, 'v) dict \<Rightarrow> ('k, 'v) dict \<Rightarrow> ('k, 'v) dict" where
  "dict_update d e = fold (\<lambda>(k, v) acc. dict_set k v acc) e d"

definition dict_get :: "('k, 'v) dict \<Rightarrow> 'k \<Rightarrow> 'v option" where
  "dict_get d k = map_of d k"

definition dict_keys :: "('k, 'v) dict \<Rightarrow> 'k list" where
  "dict_keys d = map fst d"

text \<open>A list of items is a dictionary when no key occurs twice.\<close>

definition is_dict :: "('k, 'v) dict \<Rightarrow> bool" where
  "is_dict d = distinct (map fst d)"

subsection \<open>Truthiness and \<open>str\<close>\<close>

text \<open>\<open>if s:\<close> on an \<open>Optional[str]\<close>: \<open>None\<close> and the empty string are false.\<close>

fun truthy_str :: "string option \<Rightarrow> bool" where
  "truthy_str None = False"
| "truthy_str (Some s) = (s \<noteq> [])"

text \<open>\<open>if d:\<close> on an \<open>Optional[Dict]\<close>: \<open>None\<close> and the empty dictionary are false.\<close>

fun truthy_dict :: "('k, 'v) dict option \<Rightarrow> bool" where
  "truthy_dict None = False"
| "truthy_dict (Some d) = (d \<noteq> [])"

text \<open>\<open>str(n)\<close> of a Python integer: its decimal digits, with a minus sign when negative.\<close>

definition digit_char :: "nat \<Rightarrow> char" where
  "digit_char d = char_of (48 + d)"

function str_nat :: "nat \<Rightarrow> string" where
  "str_nat n = (if n < 10 then [digit_char n] else str_nat (n div 10) @ [digit_char (n mod 10)])"
  by pat_completeness auto
termination
  by (relation "measure (\<lambda>n. n)") auto

declare str_nat.simps [simp del]

definition str_int :: "int \<Rightarrow> string" where
  "str_int i = (if i < 0 then CHR ''-'' # str_nat (nat (- i)) else str_nat (nat i))"

section \<open>Profiles and request configuration\<close>

datatype BrowserProfile =
  CHROME | CHROME_WINDOWS | FIREFOX | FIREFOX_WINDOWS | SAFARI | SAFARI_IOS
  | EDGE | OKHTTP | CHROME_LEGACY_TLS12

fun profile_value :: "BrowserProfile \<Rightarrow> string" where
  "profile_value CHROME = ''chrome''"
| "profile_value CHROME_WINDOWS = ''chrome_windows''"
| "profile_value FIREFOX = ''firefox''"
| "profile_value FIREFOX_WINDOWS = ''firefox_windows''"
| "profile_value SAFARI = ''safari''"
| "profile_value SAFARI_IOS = ''safari_ios''"
| "profile_value EDGE = ''edge''"
| "profile_value OKHTTP = ''okhttp''"
| "profile_value CHROME_LEGACY_TLS12 = ''chrome_legacy_tls12''"



text \<open>The argument type \<open>Union[str, BrowserProfile]\<close>.\<close>

datatype profile_arg = ProfileStr string | ProfileEnum BrowserProfile

text \<open>
  \<open>ProxyConfig\<close> after \<open>__post_init__\<close>: the profile is a string, an enumeration member
  having been replaced by its value. A plain string is kept as it is.
\<close>

record ProxyConfig =
  url :: string
  profile :: string
  session_id :: "string option"
  upstream_proxy :: "string option"
  timeout :: int

fun post_init_profile :: "profile_arg \<Rightarrow> string" where
  "post_init_profile (ProfileEnum p) = profile_value p"
| "post_init_profile (ProfileStr s) = s"

definition mk_ProxyConfig ::
  "string \<Rightarrow> profile_arg \<Rightarrow> string option \<Rightarrow> string option \<Rightarrow> int \<Rightarrow> ProxyConfig" where
  "mk_ProxyConfig u p sid up t =
     \<lparr>url = u, profile = post_init_profile p, session_id = sid, upstream_proxy = up,
      timeout = t\<rparr>"

section \<open>Header assembly\<close>

type_synonym headers = "(string, string) dict"

text \<open>
  \<open>_make_headers\<close> reads one attribute of the client, \<open>self.default_timeout\<close>; it is the
  first argument here. The synchronous and the asynchronous client each carry their own
  copy of the method.
\<close>

definition CycleTLSClient_make_headers ::
  "int \<Rightarrow> ProxyConfig \<Rightarrow> headers option \<Rightarrow> headers" where
  "CycleTLSClient_make_headers default_timeout config extra_headers =
     (let h0 = [(''X-URL'', url config), (''X-IDENTIFIER'', profile config)];
          h1 = (if truthy_str (session_id config)
                then dict_set ''X-SESSION-ID'' (the (session_id config)) h0 else h0);
          h2 = (if truthy_str (upstream_proxy config)
                then dict_set ''X-PROXY'' (the (upstream_proxy config)) h1 else h1);
          h3 = (if timeout config \<noteq> default_timeout
                then dict_set ''X-TIMEOUT'' (str_int (timeout config)) h2 else h2)
      in if truthy_dict extra_headers then dict_update h3 (the extra_headers) else h3)"

definition AsyncCycleTLSClient_make_headers ::
  "int \<Rightarrow> ProxyConfig \<Rightarrow> headers option \<Rightarrow> headers" where
  "AsyncCycleTLSClient_make_headers default_timeout config extra_headers =
     (let h0 = [(''X-URL'', url config), (''X-IDENTIFIER'', profile config)];
          h1 = (if truthy_str (session_id config)
                then dict_set ''X-SESSION-ID'' (the (session_id config)) h0 else h0);
          h2 = (if truthy_str (upstream_proxy config)
                then dict_set ''X-PROXY'' (the (upstream_proxy config)) h1 else h1);
          h3 = (if timeout config \<noteq> default_timeout
                then dict_set ''X-TIMEOUT'' (str_int (timeout config)) h2 else h2)
      in if truthy_dict extra_headers then dict_update h3 (the extra_headers) else h3)"

text \<open>What the caller's extra headers hold under a key; nothing when none were passed.\<close>

fun extra_get :: "headers option \<Rightarrow> string \<Rightarrow> string option" where
  "extra_get None k = None"
| "extra_get (Some e) k = dict_get e k"

fun wf_extra :: "headers option \<Rightarrow> bool" where
  "wf_extra None = True"
| "wf_extra (Some e) = is_dict e"

section \<open>Responses and errors\<close>

text \<open>
  What the client reads of a response: the status code, the body text, and whether a
  \<open>Retry-After\<close> header is present (the retry strategy of the transport library looks
  at it).
\<close>

record response =
  status_code :: int
  resp_text :: string
  retry_after :: bool

text \<open>
  The exception classes of the transport libraries that reach the client's code.
  \<open>ConnectTimeout\<close> is both a \<open>ConnectionError\<close> and a \<open>Timeout\<close> of \<open>requests\<close>,
  \<open>ReadTimeout\<close> is a \<open>Timeout\<close>; \<open>RetryError\<close>, \<open>TooManyRedirects\<close> and the
  exceptions raised before anything is sent (\<open>InvalidHeader\<close>, \<open>InvalidSchema\<close>,
  \<open>MissingSchema\<close>, \<open>InvalidURL\<close>, \<open>TypeError\<close>, \<open>ValueError\<close>) are neither. The
  message texts of these exceptions are made by the libraries and are not modelled.
\<close>

datatype lib_exc =
  ConnectTimeout | ReadTimeout | ConnectionError | RetryError | HTTPError
  | JSONDecodeError | ValueError | AsyncioTimeoutError | ClientError
  | InvalidHeader | InvalidSchema | MissingSchema | InvalidURL | TypeError
  | TooManyRedirects

fun is_Timeout :: "lib_exc \<Rightarrow> bool" where
  "is_Timeout ConnectTimeout = True"
| "is_Timeout ReadTimeout = True"
| "is_Timeout _ = False"

fun is_ConnectionError :: "lib_exc \<Rightarrow> bool" where
  "is_ConnectionError ConnectionError = True"
| "is_ConnectionError ConnectTimeout = True"
| "is_ConnectionError _ = False"

text \<open>
  What a call of the client raises. \<open>CycleTLSErrorOf p e\<close> is \<open>CycleTLSError(f"<p>{e}")\<close>
  for a library exception \<open>e\<close>; \<open>Uncaught e\<close> is a library exception that no
  \<open>except\<close> clause of the client catches, so that it reaches the caller as it is.
\<close>

datatype error =
  CycleTLSError string
  | CycleTLSErrorOf string lib_exc
  | CycleTLSTimeoutError string
  | CycleTLSInvalidProfileError string
  | RuntimeError string
  | Uncaught lib_exc

subsection \<open>String operations of the classifier\<close>

text \<open>
  Texts are modelled as ASCII strings. \<open>lower\<close> and \<open>upper\<close> change the letters
  \<open>A\<close> to \<open>Z\<close> and \<open>a\<close> to \<open>z\<close>; \<open>sub in s\<close> is true when \<open>sub\<close> occurs in
  \<open>s\<close> as a contiguous run.
\<close>

definition lower_char :: "char \<Rightarrow> char" where
  "lower_char c =
     (let n = (of_char c :: nat) in if 65 \<le> n \<and> n \<le> 90 then char_of (n + 32) else c)"

definition upper_char :: "char \<Rightarrow> char" where
  "upper_char c =
     (let n = (of_char c :: nat) in if 97 \<le> n \<and> n \<le> 122 then char_of (n - 32) else c)"

definition lower :: "string \<Rightarrow> string" where
  "lower s = map lower_char s"

definition upper :: "string \<Rightarrow> string" where
  "upper s = map upper_char s"

fun contains :: "string \<Rightarrow> string \<Rightarrow> bool" where
  "contains sub [] = (sub = [])"
| "contains sub (c # s) = (prefix sub (c # s) \<or> contains sub s)"

definition rstrip_slash :: "string \<Rightarrow> string" where
  "rstrip_slash s = rev (dropWhile (\<lambda>c. c = CHR ''/'') (rev s))"

subsection \<open>Response classification\<close>

text \<open>\<open>response.raise_for_status()\<close> raises \<open>HTTPError\<close> for the statuses 400 to 599.\<close>

definition raises_HTTPError :: "response \<Rightarrow> bool" where
  "raises_HTTPError r = (400 \<le> status_code r \<and> status_code r < 600)"

definition handle_response :: "response \<Rightarrow> error + response" where
  "handle_response r =
     (if raises_HTTPError r then
        (if status_code r = 400 then
           (let error_text = resp_text r in
            if contains ''Invalid identifier'' error_text then
              Inl (CycleTLSInvalidProfileError (''Invalid browser profile: '' @ error_text))
            else if contains ''timeout'' (lower error_text) then
              Inl (CycleTLSTimeoutError (''Request timeout: '' @ error_text))
            else Inl (CycleTLSError (''Bad request: '' @ error_text)))
         else if status_code r = 502 then
           Inl (CycleTLSError (''Upstream request failed: '' @ resp_text r))
         else Inl (CycleTLSError (''HTTP '' @ str_int (status_code r) @ '': '' @ resp_text r)))
      else Inr r)"

section \<open>The transport\<close>

text \<open>
  One call of \<open>self.session.request\<close>: the method, the URL the request is sent to, the
  headers, the timeout argument and the remaining keyword arguments, which the client
  passes on unchanged.
\<close>

record wire_call =
  req_method :: string
  req_url :: string
  req_headers :: headers
  req_timeout :: int
  req_kwargs :: "(string, string) dict"

text \<open>
  What one HTTP exchange with the proxy ends in: a response (the final one, after any
  interim \<open>100 Continue\<close>, with the target of its \<open>Location\<close> header when it
  carries one), a refused connection, or a timeout while connecting or while reading.
\<close>

datatype attempt =
  Responded response "string option" | ConnectFailed | ConnectTimedOut | ReadTimedOut

type_synonym network = "wire_call \<Rightarrow> nat \<Rightarrow> attempt"

text \<open>
  The environment of the synchronous client, which the client does not decide:
  \<^item> \<open>refuses\<close>: the checks \<open>requests\<close> makes on a call before it sends anything. A
    call it refuses raises there, with no exchange: \<open>MissingSchema\<close>, \<open>InvalidSchema\<close>
    or \<open>InvalidURL\<close> for a URL it cannot use (the retry strategy is mounted for
    \<open>http://\<close> and \<open>https://\<close> only), \<open>InvalidHeader\<close> for a header name or value it
    does not accept, \<open>TypeError\<close> for a keyword argument it does not know or that
    repeats an argument the client passes itself. Which calls are refused is the
    library's matter and is left open here;
  \<^item> \<open>exchange\<close>: the end of the \<open>k\<close>-th exchange (counted from 0) made for a call;
  \<^item> \<open>redirected\<close>: the request \<open>requests\<close> makes next when it follows a redirect
    answer to a call, from the call, the answer and the target;
  \<^item> \<open>follows\<close>: the truth value of the \<open>allow_redirects\<close> keyword of a call that
    passes one.
\<close>

record transport =
  refuses :: "wire_call \<Rightarrow> lib_exc option"
  exchange :: network
  redirected :: "wire_call \<Rightarrow> response \<Rightarrow> string \<Rightarrow> wire_call"
  follows :: "wire_call \<Rightarrow> bool"

subsection \<open>The retry strategy mounted in \<open>__init__\<close>\<close>

text \<open>
  \<open>Retry(total=max_retries, backoff_factor=1, status_forcelist=[429, 500, 502, 503, 504])\<close>
  is mounted on the session. The values below are the ones \<open>__init__\<close> passes; what
  the strategy does with them is the behaviour of \<open>urllib3.util.retry.Retry\<close> and of
  the adapter of \<open>requests\<close>:
  \<^item> a response is retried when the method is one of the allowed (idempotent) methods
    and its status is in \<open>status_forcelist\<close>, or it carries \<open>Retry-After\<close> with one of
    the statuses 413, 429, 503 while \<open>total\<close> is not 0;
  \<^item> a failed connection is retried for every method, a read timeout only for an
    allowed method;
  \<^item> each retry takes one from \<open>total\<close>; once \<open>total\<close> would fall below 0 the
    strategy is exhausted and the adapter raises: \<open>RetryError\<close> after a response,
    \<open>ConnectTimeout\<close> after a connect timeout, \<open>ConnectionError\<close> otherwise;
  \<^item> a timeout argument that is not positive is refused with \<open>ValueError\<close> before
    anything is sent.
  The pauses between the attempts are not modelled.
\<close>

record Retry =
  total :: int
  backoff_factor :: int
  status_forcelist :: "int list"

definition DEFAULT_ALLOWED_METHODS :: "string list" where
  "DEFAULT_ALLOWED_METHODS = [''HEAD'', ''GET'', ''PUT'', ''DELETE'', ''OPTIONS'', ''TRACE'']"

definition RETRY_AFTER_STATUS_CODES :: "int list" where
  "RETRY_AFTER_STATUS_CODES = [413, 429, 503]"

definition is_method_retryable :: "string \<Rightarrow> bool" where
  "is_method_retryable m = (upper m \<in> set DEFAULT_ALLOWED_METHODS)"

definition is_retry :: "Retry \<Rightarrow> string \<Rightarrow> response \<Rightarrow> bool" where
  "is_retry retries m r =
     (is_method_retryable m \<and>
      (status_code r \<in> set (status_forcelist retries) \<or>
       (total retries \<noteq> 0 \<and> retry_after r \<and> status_code r \<in> set RETRY_AFTER_STATUS_CODES)))"

text \<open>
  The body of an answer is not read, and the response has an empty text, when the
  status is 204, 304 or one of 100 to 199, or when the method is HEAD.
\<close>

definition drops_body :: "string \<Rightarrow> response \<Rightarrow> bool" where
  "drops_body m r =
     (status_code r = 204 \<or> status_code r = 304
      \<or> (100 \<le> status_code r \<and> status_code r < 200) \<or> upper m = ''HEAD'')"

definition delivered :: "string \<Rightarrow> response \<Rightarrow> response" where
  "delivered m r = (if drops_body m r then r\<lparr>resp_text := []\<rparr> else r)"

text \<open>
  The loop of the adapter: \<open>k\<close> exchanges have been made so far. The result is what the
  adapter returns (the response and the target of its \<open>Location\<close> header) or raises,
  with the number of exchanges made.
\<close>

function urlopen ::
  "Retry \<Rightarrow> string \<Rightarrow> (nat \<Rightarrow> attempt) \<Rightarrow> nat \<Rightarrow> (lib_exc + response \<times> string option) \<times> nat" where
  "urlopen retries m srv k =
     (case srv k of
        Responded r loc \<Rightarrow>
          if is_retry retries m r then
            (if total retries - 1 < 0 then (Inl RetryError, Suc k)
             else urlopen (retries\<lparr>total := total retries - 1\<rparr>) m srv (Suc k))
          else (Inr (delivered m r, loc), Suc k)
      | ConnectFailed \<Rightarrow>
          if total retries - 1 < 0 then (Inl ConnectionError, Suc k)
          else urlopen (retries\<lparr>total := total retries - 1\<rparr>) m srv (Suc k)
      | ConnectTimedOut \<Rightarrow>
          if total retries - 1 < 0 then (Inl ConnectTimeout, Suc k)
          else urlopen (retries\<lparr>total := total retries - 1\<rparr>) m srv (Suc k)
      | ReadTimedOut \<Rightarrow>
          if \<not> is_method_retryable m then (Inl ReadTimeout, Suc k)
          else if total retries - 1 < 0 then (Inl ConnectionError, Suc k)
          else urlopen (retries\<lparr>total := total retries - 1\<rparr>) m srv (Suc k))"
  by pat_completeness auto
termination
  by (relation "measure (\<lambda>(retries, m, srv, k). nat (total retries))") auto

declare urlopen.simps [simp del]

text \<open>
  One request through the adapter: the checks before sending, then the loop. A call
  the library refuses, or whose timeout is not positive, raises with no exchange.
\<close>

definition send_once ::
  "Retry \<Rightarrow> transport \<Rightarrow> wire_call \<Rightarrow> (lib_exc + response \<times> string option) \<times> nat" where
  "send_once retries env call =
     (case refuses env call of
        Some e \<Rightarrow> (Inl e, 0)
      | None \<Rightarrow>
          if req_timeout call \<le> 0 then (Inl ValueError, 0)
          else urlopen retries (req_method call) (exchange env call) 0)"

text \<open>
  \<open>requests\<close> follows a redirect answer: a response with a \<open>Location\<close> header and one
  of the statuses 301, 302, 303, 307, 308. It does so unless the call passes
  \<open>allow_redirects\<close> with a false value (\<open>session.request\<close> and \<open>session.get\<close>
  default to \<open>True\<close>). The next request goes through the adapter again. After 30
  redirects a further redirect answer raises \<open>TooManyRedirects\<close>. \<open>left\<close> is the
  number of redirects that may still be followed; the exchanges of all the requests are
  counted together.
\<close>

definition REDIRECT_STATI :: "int list" where
  "REDIRECT_STATI = [301, 302, 303, 307, 308]"

definition is_redirect :: "response \<Rightarrow> string option \<Rightarrow> bool" where
  "is_redirect r loc = (loc \<noteq> None \<and> status_code r \<in> set REDIRECT_STATI)"

definition DEFAULT_REDIRECT_LIMIT :: nat where
  "DEFAULT_REDIRECT_LIMIT = 30"

definition allow_redirects :: "transport \<Rightarrow> wire_call \<Rightarrow> bool" where
  "allow_redirects env call =
     (dict_get (req_kwargs call) ''allow_redirects'' = None \<or> follows env call)"

fun session_send ::
  "Retry \<Rightarrow> transport \<Rightarrow> bool \<Rightarrow> nat \<Rightarrow> wire_call \<Rightarrow> (lib_exc + response) \<times> nat" where
  "session_send retries env follow 0 call =
     (case send_once retries env call of
        (Inl e, n) \<Rightarrow> (Inl e, n)
      | (Inr (r, loc), n) \<Rightarrow>
          if follow \<and> is_redirect r loc then (Inl TooManyRedirects, n) else (Inr r, n))"
| "session_send retries env follow (Suc left) call =
     (case send_once retries env call of
        (Inl e, n) \<Rightarrow> (Inl e, n)
      | (Inr (r, loc), n) \<Rightarrow>
          if follow \<and> is_redirect r loc then
            (let got = session_send retries env follow left (redirected env call r (the loc))
             in (fst got, n + snd got))
          else (Inr r, n))"

definition session_request :: "Retry \<Rightarrow> transport \<Rightarrow> wire_call \<Rightarrow> (lib_exc + response) \<times> nat" where
  "session_request retries env call =
     session_send retries env (allow_redirects env call) DEFAULT_REDIRECT_LIMIT call"

section \<open>The synchronous client\<close>

record CycleTLSClient =
  proxy_url :: string
  default_timeout :: int
  retry_strategy :: Retry

definition CycleTLSClient_init :: "string \<Rightarrow> int \<Rightarrow> int \<Rightarrow> CycleTLSClient" where
  "CycleTLSClient_init proxy_url' default_timeout' max_retries =
     \<lparr>proxy_url = rstrip_slash proxy_url',
      default_timeout = default_timeout',
      retry_strategy =
        \<lparr>total = max_retries, backoff_factor = 1,
         status_forcelist = [429, 500, 502, 503, 504]\<rparr>\<rparr>"

text \<open>
  What a call of the client did: its result (returned or raised), the calls of
  \<open>self.session.request\<close> it made, and the number of HTTP exchanges made for them.
\<close>

record 'a effect =
  result :: "error + 'a"
  sent :: "wire_call list"
  attempts :: nat

text \<open>\<open>timeout or self.default_timeout\<close>: \<open>None\<close> and 0 give the default.\<close>

fun timeout_or :: "int option \<Rightarrow> int \<Rightarrow> int" where
  "timeout_or None d = d"
| "timeout_or (Some t) d = (if t = 0 then d else t)"

text \<open>
  The two \<open>except\<close> clauses of \<open>request\<close>, for the config's timeout \<open>t\<close>: a
  \<open>Timeout\<close> and a \<open>ConnectionError\<close> of \<open>requests\<close> are turned into errors of the
  client, every other exception passes through.
\<close>

definition request_except :: "int \<Rightarrow> lib_exc \<Rightarrow> error" where
  "request_except t e =
     (if is_Timeout e then
        CycleTLSTimeoutError (''Request timed out after '' @ str_int t @ ''s'')
      else if is_ConnectionError e then CycleTLSErrorOf ''Connection error: '' e
      else Uncaught e)"

definition CycleTLSClient_request ::
  "CycleTLSClient \<Rightarrow> transport \<Rightarrow> string \<Rightarrow> string \<Rightarrow> profile_arg \<Rightarrow> string option \<Rightarrow>
   string option \<Rightarrow> int option \<Rightarrow> headers option \<Rightarrow> (string, string) dict \<Rightarrow> response effect" where
  "CycleTLSClient_request self env method' url' profile' session_id' upstream_proxy' timeout'
       headers' kwargs =
     (let config = mk_ProxyConfig url' profile' session_id' upstream_proxy'
                     (timeout_or timeout' (default_timeout self));
          proxy_headers = CycleTLSClient_make_headers (default_timeout self) config headers';
          call = \<lparr>req_method = method', req_url = proxy_url self, req_headers = proxy_headers,
                  req_timeout = timeout config + 5, req_kwargs = kwargs\<rparr>;
          got = session_request (retry_strategy self) env call
      in \<lparr>result =
            (case fst got of
               Inr r \<Rightarrow> handle_response r
             | Inl e \<Rightarrow> Inl (request_except (timeout config) e)),
          sent = [call],
          attempts = snd got\<rparr>)"


definition CycleTLSClient_get ::
  "CycleTLSClient \<Rightarrow> transport \<Rightarrow> string \<Rightarrow> profile_arg \<Rightarrow> string option \<Rightarrow>
   string option \<Rightarrow> int option \<Rightarrow> headers option \<Rightarrow> (string, string) dict \<Rightarrow> response effect" where
  "CycleTLSClient_get self env url' = CycleTLSClient_request self env ''GET'' url'"

definition CycleTLSClient_post ::
  "CycleTLSClient \<Rightarrow> transport \<Rightarrow> string \<Rightarrow> profile_arg \<Rightarrow> string option \<Rightarrow>
   string option \<Rightarrow> int option \<Rightarrow> headers option \<Rightarrow> (string, string) dict \<Rightarrow> response effect" where
  "CycleTLSClient_post self env url' = CycleTLSClient_request self env ''POST'' url'"

text \<open>
  \<open>health_check\<close>: \<open>self.session.get\<close> goes through the same session, hence through
  the same mounted retry strategy. \<open>loads\<close> is the JSON decoder behind
  \<open>response.json()\<close>; it gives nothing for a body that is not JSON. The single
  \<open>except Exception\<close> turns every failure into a \<open>CycleTLSError\<close>.
\<close>

definition health_call :: "CycleTLSClient \<Rightarrow> wire_call" where
  "health_call self =
     \<lparr>req_method = ''GET'', req_url = proxy_url self @ ''/health'', req_headers = [],
      req_timeout = 5, req_kwargs = []\<rparr>"

definition health_check :: "CycleTLSClient \<Rightarrow> transport \<Rightarrow> (string \<Rightarrow> 'j option) \<Rightarrow> 'j effect" where
  "health_check self env loads =
     (let call = \<lparr>req_method = ''GET'', req_url = proxy_url self @ ''/health'',
                  req_headers = [], req_timeout = 5, req_kwargs = []\<rparr>;
          got = session_request (retry_strategy self) env call
      in \<lparr>result =
            (case fst got of
               Inl e \<Rightarrow> Inl (CycleTLSErrorOf ''Health check failed: '' e)
             | Inr r \<Rightarrow>
                 if raises_HTTPError r then
                   Inl (CycleTLSErrorOf ''Health check failed: '' HTTPError)
                 else (case loads (resp_text r) of
                         None \<Rightarrow> Inl (CycleTLSErrorOf ''Health check failed: '' JSONDecodeError)
                       | Some j \<Rightarrow> Inr j)),
          sent = [call],
          attempts = snd got\<rparr>)"

section \<open>The asynchronous client\<close>

text \<open>
  \<open>self.session\<close> is \<open>None\<close> until the client is entered as a context manager. What a
  call of the \<open>aiohttp\<close> session ends in is fixed by the environment: a response, an
  \<open>asyncio.TimeoutError\<close>, an \<open>aiohttp.ClientError\<close>, or another exception, which
  \<open>request\<close> does not catch. The timeout is passed as \<open>ClientTimeout(total=...)\<close>. The
  response is returned without \<open>_handle_response\<close>.
\<close>

record AsyncCycleTLSClient =
  aproxy_url :: string
  adefault_timeout :: int
  session_open :: bool

datatype aio_result = AioResponded response | AioTimedOut | AioClientFailed | AioRaised lib_exc

definition AsyncCycleTLSClient_init :: "string \<Rightarrow> int \<Rightarrow> AsyncCycleTLSClient" where
  "AsyncCycleTLSClient_init proxy_url' default_timeout' =
     \<lparr>aproxy_url = rstrip_slash proxy_url', adefault_timeout = default_timeout',
      session_open = False\<rparr>"

definition aenter :: "AsyncCycleTLSClient \<Rightarrow> AsyncCycleTLSClient" where
  "aenter self = self\<lparr>session_open := True\<rparr>"

text \<open>What an asynchronous call did: its result and the calls of the session it made.\<close>

record aeffect =
  aresult :: "error + response"
  asent :: "wire_call list"

text \<open>The \<open>async with\<close> block of \<open>request\<close> and its two \<open>except\<close> clauses.\<close>

fun arequest_outcome :: "int \<Rightarrow> aio_result \<Rightarrow> error + response" where
  "arequest_outcome t (AioResponded r) = Inr r"
| "arequest_outcome t AioTimedOut =
     Inl (CycleTLSTimeoutError (''Request timed out after '' @ str_int t @ ''s''))"
| "arequest_outcome t AioClientFailed = Inl (CycleTLSErrorOf ''Request error: '' ClientError)"
| "arequest_outcome t (AioRaised e) = Inl (Uncaught e)"

definition AsyncCycleTLSClient_request ::
  "AsyncCycleTLSClient \<Rightarrow> (wire_call \<Rightarrow> aio_result) \<Rightarrow> string \<Rightarrow> string \<Rightarrow> profile_arg \<Rightarrow>
   string option \<Rightarrow> string option \<Rightarrow> int option \<Rightarrow> headers option \<Rightarrow> (string, string) dict \<Rightarrow>
   aeffect" where
  "AsyncCycleTLSClient_request self net method' url' profile' session_id' upstream_proxy'
       timeout' headers' kwargs =
     (if \<not> session_open self then
        \<lparr>aresult = Inl (RuntimeError ''Client must be used in async context manager''),
         asent = []\<rparr>
      else
        (let config = mk_ProxyConfig url' profile' session_id' upstream_proxy'
                        (timeout_or timeout' (adefault_timeout self));
             proxy_headers =
               AsyncCycleTLSClient_make_headers (adefault_timeout self) config headers';
             call = \<lparr>req_method = method', req_url = aproxy_url self,
                     req_headers = proxy_headers, req_timeout = timeout config + 5,
                     req_kwargs = kwargs\<rparr>
         in \<lparr>aresult = arequest_outcome (timeout config) (net call),
             asent = [call]\<rparr>))"

section \<open>Concurrent dispatch\<close>

subsection \<open>Thread pool\<close>

text \<open>
  \<open>make_request\<close> of \<open>run_concurrent_examples\<close>: one GET with a session of its own. It
  returns \<open>(request_id, status_code, len(content))\<close>, or \<open>(request_id, "ERROR", str(e))\<close>
  when the request raised anything. The content is counted by the length of the body
  text, and the error stands for its own text.
\<close>

type_synonym result_tuple = "nat \<times> (int + string) \<times> (nat + error)"

definition make_request :: "CycleTLSClient \<Rightarrow> transport \<Rightarrow> nat \<Rightarrow> result_tuple" where
  "make_request client net request_id =
     (case result (CycleTLSClient_get client net
                     (''https://httpbin.org/get?request_id='' @ str_nat request_id)
                     (ProfileEnum CHROME) (Some (''concurrent-'' @ str_nat request_id))
                     None None None [])
      of Inr r \<Rightarrow> (request_id, Inl (status_code r), Inl (length (resp_text r)))
       | Inl e \<Rightarrow> (request_id, Inr ''ERROR'', Inr e))"

text \<open>
  \<open>as_completed(futures)\<close> yields the futures in the order in which they complete. That
  order is fixed by the environment: \<open>order\<close> lists the positions of the futures as they
  finish.
\<close>

definition as_completed :: "'a list \<Rightarrow> nat list \<Rightarrow> 'a list" where
  "as_completed futures order = map (\<lambda>i. futures ! i) (filter (\<lambda>i. i < length futures) order)"

text \<open>
  \<open>sorted(results)\<close> compares the tuples from their first component on. The request
  identifiers are pairwise different, so the first component decides every comparison
  and the later components are never compared.
\<close>

definition py_sorted :: "result_tuple list \<Rightarrow> result_tuple list" where
  "py_sorted rs = sort_key fst rs"

text \<open>
  \<open>results\<close> is the list collected from \<open>as_completed\<close>; the sequence that is handed
  back (printed line by line) is \<open>sorted(results)\<close>. The source dispatches
  \<open>range(10)\<close>.
\<close>

definition concurrent_results :: "nat \<Rightarrow> CycleTLSClient \<Rightarrow> transport \<Rightarrow> nat list \<Rightarrow> result_tuple list" where
  "concurrent_results n client net order =
     (let futures = map (make_request client net) [0..<n]
      in as_completed futures order)"

definition concurrent_dispatch :: "nat \<Rightarrow> CycleTLSClient \<Rightarrow> transport \<Rightarrow> nat list \<Rightarrow> result_tuple list" where
  "concurrent_dispatch n client net order = py_sorted (concurrent_results n client net order)"

definition run_concurrent_examples :: "CycleTLSClient \<Rightarrow> transport \<Rightarrow> nat list \<Rightarrow> result_tuple list" where
  "run_concurrent_examples = concurrent_dispatch 10"

subsection \<open>Event loop\<close>

text \<open>The \<open>i\<close>-th task of \<open>run_async_examples\<close>.\<close>

definition async_task ::
  "AsyncCycleTLSClient \<Rightarrow> (wire_call \<Rightarrow> aio_result) \<Rightarrow> nat \<Rightarrow> error + response" where
  "async_task client net i =
     aresult (AsyncCycleTLSClient_request client net ''GET''
               (''https://httpbin.org/get?async_req='' @ str_nat i)
               (ProfileEnum FIREFOX) (Some (''async-session-'' @ str_nat i))
               None None None [])"

text \<open>
  \<open>asyncio.gather(*tasks)\<close> without \<open>return_exceptions\<close>: each task that completes puts
  its value into the slot of its own position; the first task that raises makes
  \<open>gather\<close> raise that exception at once. \<open>gather\<close> returns once every slot is filled;
  while a slot is empty there is no result yet (\<open>None\<close>).
\<close>

fun gather_run :: "(error + 'r) list \<Rightarrow> nat list \<Rightarrow> 'r option list \<Rightarrow> error + 'r option list" where
  "gather_run tasks [] slots = Inr slots"
| "gather_run tasks (i # order) slots =
     (case tasks ! i of
        Inl e \<Rightarrow> Inl e
      | Inr r \<Rightarrow> gather_run tasks order (slots[i := Some r]))"

definition gather :: "(error + 'r) list \<Rightarrow> nat list \<Rightarrow> (error + 'r list) option" where
  "gather tasks order =
     (case gather_run tasks (filter (\<lambda>i. i < length tasks) order)
             (replicate (length tasks) None)
      of Inl e \<Rightarrow> Some (Inl e)
       | Inr slots \<Rightarrow> map_option Inr (those slots))"

definition async_dispatch ::
  "nat \<Rightarrow> AsyncCycleTLSClient \<Rightarrow> (wire_call \<Rightarrow> aio_result) \<Rightarrow> nat list \<Rightarrow>
   (error + response list) option" where
  "async_dispatch n client net order = gather (map (async_task client net) [0..<n]) order"

definition run_async_examples ::
  "AsyncCycleTLSClient \<Rightarrow> (wire_call \<Rightarrow> aio_result) \<Rightarrow> nat list \<Rightarrow>
   (error + response list) option" where
  "run_async_examples = async_dispatch 5"

text \<open>The first task, in the order of completion, that raised.\<close>

definition first_failure :: "(error + 'r) list \<Rightarrow> nat list \<Rightarrow> error option" where
  "first_failure tasks order =
     (case find (\<lambda>i. isl (tasks ! i)) order of
        None \<Rightarrow> None
      | Some i \<Rightarrow> Some (projl (tasks ! i)))"

section \<open>Predicates used in the statements\<close>

fun raised_timeout :: "error + 'a \<Rightarrow> bool" where
  "raised_timeout (Inl (CycleTLSTimeoutError msg)) = True"
| "raised_timeout _ = False"


text \<open>
  The transport library sends a call: it does not refuse it, and its timeout is
  positive.
\<close>

definition accepted :: "transport \<Rightarrow> wire_call \<Rightarrow> bool" where
  "accepted env call = (refuses env call = None \<and> 0 < req_timeout call)"



text \<open>
  Environments for the examples: the library refuses no call, and the proxy answers as
  \<open>f\<close> says; in particular with the same response, without \<open>Location\<close>, every time.
\<close>

definition proxy :: "network \<Rightarrow> transport" where
  "proxy f =
     \<lparr>refuses = (\<lambda>call. None), exchange = f, redirected = (\<lambda>call r target. call),
      follows = (\<lambda>call. True)\<rparr>"

definition proxy_answering :: "response \<Rightarrow> transport" where
  "proxy_answering r = proxy (\<lambda>call k. Responded r None)"

section \<open>Facts about dictionaries\<close>

lemma dict_get_set: "dict_get (dict_set k v d) k' = (if k' = k then Some v else dict_get d k')"
  by (induction d) (auto simp: dict_get_def)

lemma dict_get_update_miss:
  "k \<notin> set (dict_keys e) \<Longrightarrow> dict_get (dict_update d e) k = dict_get d k"
  unfolding dict_update_def dict_keys_def
  by (induction e arbitrary: d) (auto simp: dict_get_set)

lemma dict_get_update_hit:
  "is_dict e \<Longrightarrow> (k, v) \<in> set e \<Longrightarrow> dict_get (dict_update d e) k = Some v"
  unfolding dict_update_def is_dict_def
proof (induction e arbitrary: d)
  case Nil
  then show ?case by simp
next
  case (Cons a e)
  obtain k' v' where a: "a = (k', v')" by (cases a)
  show ?case
  proof (cases "(k, v) = a")
    case True
    with Cons.prems a have "k \<notin> set (dict_keys e)"
      by (auto simp: dict_keys_def)
    then have "dict_get (dict_update (dict_set k v d) e) k = dict_get (dict_set k v d) k"
      by (rule dict_get_update_miss)
    with True a show ?thesis
      by (simp add: dict_update_def dict_get_set)
  next
    case False
    with Cons.prems have "(k, v) \<in> set e" and "distinct (map fst e)" by auto
    with Cons.IH [of "dict_set k' v' d"] a show ?thesis by simp
  qed
qed

lemma dict_get_update:
  "is_dict e \<Longrightarrow>
   dict_get (dict_update d e) k = (case dict_get e k of Some v \<Rightarrow> Some v | None \<Rightarrow> dict_get d k)"
proof (cases "dict_get e k")
  case None
  then have "k \<notin> set (dict_keys e)"
    by (simp add: dict_get_def dict_keys_def map_of_eq_None_iff)
  with None show ?thesis by (simp add: dict_get_update_miss)
next
  case (Some v)
  then have "(k, v) \<in> set e" by (simp add: dict_get_def map_of_SomeD)
  moreover assume "is_dict e"
  ultimately show ?thesis using Some by (simp add: dict_get_update_hit)
qed


lemma dict_get_Cons: "dict_get ((k', v) # d) k = (if k = k' then Some v else dict_get d k)"
  by (simp add: dict_get_def)

lemma dict_get_Nil: "dict_get [] k = None"
  by (simp add: dict_get_def)

lemma dict_get_merge_extra:
  "wf_extra x \<Longrightarrow>
   dict_get (if truthy_dict x then dict_update h (the x) else h) k =
     (case extra_get x k of Some v \<Rightarrow> Some v | None \<Rightarrow> dict_get h k)"
proof (cases x)
  case None
  then show ?thesis by simp
next
  case (Some e)
  assume "wf_extra x"
  with Some have "is_dict e" by simp
  then show ?thesis
    using Some by (cases "e = []") (simp_all add: dict_get_update dict_get_Nil)
qed

lemma truthy_str_the: "truthy_str x \<Longrightarrow> Some (the x) = x"
  by (cases x) simp_all

lemmas header_lookup = dict_get_merge_extra dict_get_set dict_get_Cons dict_get_Nil

section \<open>Facts about the transport\<close>

lemma status_code_delivered [simp]: "status_code (delivered m r) = status_code r"
  by (simp add: delivered_def)

lemma delivered_keeps: "\<not> drops_body m r \<Longrightarrow> delivered m r = r"
  by (simp add: delivered_def)

lemma raises_HTTPError_delivered [simp]: "raises_HTTPError (delivered m r) = raises_HTTPError r"
  by (simp add: raises_HTTPError_def)


lemma delivered_text_absent:
  "contains (c # sub) (resp_text (delivered m r)) \<Longrightarrow> delivered m r = r"
  by (cases "drops_body m r") (simp_all add: delivered_def)


lemma no_Location_not_redirect: "\<not> is_redirect r None"
  by (simp add: is_redirect_def)



lemma urlopen_returns_unretried:
  "srv k = Responded r loc \<Longrightarrow> \<not> is_retry retries m r \<Longrightarrow>
   urlopen retries m srv k = (Inr (delivered m r, loc), Suc k)"
  by (subst urlopen.simps) simp



lemma send_once_accepted:
  "accepted env call \<Longrightarrow>
   send_once retries env call = urlopen retries (req_method call) (exchange env call) 0"
  by (simp add: send_once_def accepted_def)



text \<open>Where no redirect is followed, the session returns what the adapter returns.\<close>

lemma session_send_raises:
  "send_once retries env call = (Inl e, n) \<Longrightarrow> session_send retries env follow left call = (Inl e, n)"
  by (cases left) simp_all

lemma session_send_returns:
  "send_once retries env call = (Inr (r, loc), n) \<Longrightarrow> \<not> is_redirect r loc \<Longrightarrow>
   session_send retries env follow left call = (Inr r, n)"
  by (cases left) simp_all








lemma session_request_unretried:
  assumes "exchange env call 0 = Responded r loc"
    and "\<not> is_retry retries (req_method call) r"
    and "\<not> is_redirect r loc" and "accepted env call"
  shows "session_request retries env call = (Inr (delivered (req_method call) r), 1)"
proof -
  from urlopen_returns_unretried [of "exchange env call" 0 r loc retries "req_method call"]
    assms(1,2,4)
  have "send_once retries env call = (Inr (delivered (req_method call) r, loc), 1)"
    by (simp add: send_once_accepted)
  moreover from assms(3) have "\<not> is_redirect (delivered (req_method call) r) loc"
    by (simp add: is_redirect_def)
  ultimately show ?thesis unfolding session_request_def by (rule session_send_returns)
qed

lemma session_request_not_sent:
  "\<not> accepted env call \<Longrightarrow> snd (session_request retries env call) = 0"
proof -
  assume "\<not> accepted env call"
  then have "\<exists>e. send_once retries env call = (Inl e, 0)"
    by (auto simp: send_once_def accepted_def not_less split: option.splits)
  then obtain e where "send_once retries env call = (Inl e, 0)" ..
  from session_send_raises [OF this] show ?thesis by (simp add: session_request_def)
qed

lemma proxy_accepts: "accepted (proxy f) call = (0 < req_timeout call)"
  by (simp add: accepted_def proxy_def)

lemma proxy_exchange [simp]: "exchange (proxy f) = f"
  by (simp add: proxy_def)





section \<open>Facts about \<open>request\<close> and \<open>health_check\<close>\<close>



lemma GET_keeps_body: "status_code r \<in> {200, 300, 400, 404} \<Longrightarrow> \<not> drops_body ''GET'' r"
proof -
  have "upper ''GET'' \<noteq> ''HEAD''" by code_simp
  moreover assume "status_code r \<in> {200, 300, 400, 404}"
  ultimately show ?thesis by (auto simp: drops_body_def)
qed

lemma init_fields:
  "proxy_url (CycleTLSClient_init purl dt mr) = rstrip_slash purl"
  "default_timeout (CycleTLSClient_init purl dt mr) = dt"
  "total (retry_strategy (CycleTLSClient_init purl dt mr)) = mr"
  "status_forcelist (retry_strategy (CycleTLSClient_init purl dt mr)) = [429, 500, 502, 503, 504]"
  by (simp_all add: CycleTLSClient_init_def)













lemma str_int_503: "str_int 503 = ''503''"
  by code_simp

lemma handle_response_503:
  "status_code r = 503 \<Longrightarrow>
   handle_response r = Inl (CycleTLSError (''HTTP 503: '' @ resp_text r))"
  by (simp add: handle_response_def raises_HTTPError_def str_int_503)


lemma health_check_run:
  "sent (health_check self env loads) = [health_call self]
   \<and> attempts (health_check self env loads)
       = snd (session_request (retry_strategy self) env (health_call self))
   \<and> result (health_check self env loads)
       = (case fst (session_request (retry_strategy self) env (health_call self)) of
            Inl e \<Rightarrow> Inl (CycleTLSErrorOf ''Health check failed: '' e)
          | Inr r \<Rightarrow>
              if raises_HTTPError r then
                Inl (CycleTLSErrorOf ''Health check failed: '' HTTPError)
              else (case loads (resp_text r) of
                      None \<Rightarrow> Inl (CycleTLSErrorOf ''Health check failed: '' JSONDecodeError)
                    | Some j \<Rightarrow> Inr j))"
  by (simp add: health_check_def health_call_def Let_def)

lemma health_call_fields:
  "req_method (health_call self) = ''GET''"
  "req_url (health_call self) = proxy_url self @ ''/health''"
  "req_timeout (health_call self) = 5"
  "req_headers (health_call self) = []"
  by (simp_all add: health_call_def)

lemma health_call_accepted: "accepted env (health_call self) = (refuses env (health_call self) = None)"
  by (simp add: accepted_def health_call_fields)





lemma health_check_not_sent:
  "\<not> accepted env (health_call self) \<Longrightarrow> attempts (health_check self env loads) = 0"
  by (simp add: health_check_run session_request_not_sent)


section \<open>Facts about concurrent dispatch\<close>

lemma perm_upt_set: "mset order = mset [0..<n] \<Longrightarrow> set order = {0..<n}"
  by (metis mset_eq_setD set_upt)

lemma perm_upt_distinct: "mset order = mset [0..<n] \<Longrightarrow> distinct order"
  by (metis distinct_upt mset_eq_imp_distinct_iff)

lemma perm_upt_sort: "mset order = mset [0..<n] \<Longrightarrow> sort order = [0..<n]"
  by (rule properties_for_sort) simp_all

lemma insort_key_map:
  "insort_key f (g x) (map g ys) = map g (insort_key (\<lambda>y. f (g y)) x ys)"
  by (induction ys) simp_all

lemma sort_key_map: "sort_key f (map g xs) = map g (sort_key (\<lambda>y. f (g y)) xs)"
  by (induction xs) (simp_all add: insort_key_map)

lemma fst_make_request: "fst (make_request client net i) = i"
  by (simp add: make_request_def split: sum.split)

lemma as_completed_perm:
  assumes "mset order = mset [0..<n]"
  shows "as_completed (map f [0..<n]) order = map f order"
proof -
  from perm_upt_set [OF assms] have "\<forall>i\<in>set order. i < n" by simp
  then have "filter (\<lambda>i. i < n) order = order" by (simp add: filter_id_conv)
  moreover from \<open>\<forall>i\<in>set order. i < n\<close>
  have "map (\<lambda>i. map f [0..<n] ! i) order = map f order" by simp
  ultimately show ?thesis by (simp add: as_completed_def)
qed

lemma concurrent_dispatch_perm:
  assumes "mset order = mset [0..<n]"
  shows "concurrent_dispatch n client net order = map (make_request client net) [0..<n]"
proof -
  have "concurrent_dispatch n client net order
          = sort_key fst (map (make_request client net) order)"
    by (simp add: concurrent_dispatch_def concurrent_results_def py_sorted_def
        as_completed_perm [OF assms])
  also have "\<dots> = map (make_request client net) (sort_key (\<lambda>i. i) order)"
    by (simp add: sort_key_map fst_make_request)
  also have "sort_key (\<lambda>i. i) order = [0..<n]"
    using perm_upt_sort [OF assms] by simp
  finally show ?thesis .
qed

lemma gather_run_all_ok:
  "\<forall>i\<in>set order. \<not> isl (tasks ! i) \<Longrightarrow>
   gather_run tasks order slots
     = Inr (fold (\<lambda>i s. s[i := Some (projr (tasks ! i))]) order slots)"
proof (induction order arbitrary: slots)
  case Nil
  then show ?case by simp
next
  case (Cons i order)
  then obtain r where "tasks ! i = Inr r" by (cases "tasks ! i") auto
  with Cons show ?case by simp
qed

lemma gather_run_first_failure:
  "find (\<lambda>i. isl (tasks ! i)) order = Some i \<Longrightarrow>
   gather_run tasks order slots = Inl (projl (tasks ! i))"
proof (induction order arbitrary: slots)
  case Nil
  then show ?case by simp
next
  case (Cons j order)
  then show ?case by (cases "tasks ! j") (auto split: if_splits)
qed

lemma length_fold_update: "length (fold (\<lambda>i s. s[i := g i]) order slots) = length slots"
  by (induction order arbitrary: slots) simp_all

lemma nth_fold_update:
  "j < length slots \<Longrightarrow>
   fold (\<lambda>i s. s[i := g i]) order slots ! j = (if j \<in> set order then g j else slots ! j)"
proof (induction order arbitrary: slots)
  case Nil
  then show ?case by simp
next
  case (Cons i order)
  from Cons.prems have "j < length (slots[i := g i])" by simp
  from Cons.IH [OF this] Cons.prems show ?case
    by (auto simp: nth_list_update)
qed

lemma fold_update_perm:
  assumes "mset order = mset [0..<n]"
  shows "fold (\<lambda>i s. s[i := g i]) order (replicate n None) = map g [0..<n]"
proof (rule nth_equalityI)
  show "length (fold (\<lambda>i s. s[i := g i]) order (replicate n None)) = length (map g [0..<n])"
    by (simp add: length_fold_update)
next
  fix j
  assume "j < length (fold (\<lambda>i s. s[i := g i]) order (replicate n None))"
  then have j: "j < n" by (simp add: length_fold_update)
  with perm_upt_set [OF assms] have "j \<in> set order" by simp
  with j show "fold (\<lambda>i s. s[i := g i]) order (replicate n None) ! j = map g [0..<n] ! j"
    by (simp add: nth_fold_update)
qed

lemma those_map_Some: "those (map (\<lambda>x. Some (f x)) xs) = Some (map f xs)"
  by (induction xs) simp_all

lemma gather_perm:
  assumes "mset order = mset [0..<length tasks]"
  shows "gather tasks order
           = Some (case first_failure tasks order of
                     Some e \<Rightarrow> Inl e
                   | None \<Rightarrow> Inr (map projr tasks))"
proof -
  from perm_upt_set [OF assms] have "\<forall>i\<in>set order. i < length tasks" by simp
  then have keep: "filter (\<lambda>i. i < length tasks) order = order" by (simp add: filter_id_conv)
  show ?thesis
  proof (cases "find (\<lambda>i. isl (tasks ! i)) order")
    case None
    then have ok: "\<forall>i\<in>set order. \<not> isl (tasks ! i)" by (simp add: find_None_iff)
    have "fold (\<lambda>i s. s[i := Some (projr (tasks ! i))]) order (replicate (length tasks) None)
            = map (\<lambda>i. Some (projr (tasks ! i))) [0..<length tasks]"
      by (rule fold_update_perm [OF assms])
    also have "\<dots> = map (\<lambda>t. Some (projr t)) tasks"
      by (rule nth_equalityI) simp_all
    finally show ?thesis
      using None by (simp add: gather_def keep gather_run_all_ok [OF ok] first_failure_def
          those_map_Some)
  next
    case (Some i)
    from gather_run_first_failure [OF this] Some show ?thesis
      by (simp add: gather_def keep first_failure_def)
  qed
qed

section \<open>Properties of header assembly\<close>

text \<open>
  C1 (as stated, refuted). The claim says that no caller-supplied extra header overrides
  the routing headers. With the extra headers \<open>{"X-URL": "https://other.example/"}\<close> the
  returned mapping holds the caller's value under \<open>X-URL\<close>, not the target URL of the
  config, in both clients.
\<close>

theorem make_headers_routing_overridden:
  "dict_get (CycleTLSClient_make_headers 30
       \<lparr>url = ''https://example.com/'', profile = ''chrome'', session_id = None,
        upstream_proxy = None, timeout = 30\<rparr>
       (Some [(''X-URL'', ''https://other.example/'')])) ''X-URL''
     = Some ''https://other.example/''
   \<and> dict_get (AsyncCycleTLSClient_make_headers 30
       \<lparr>url = ''https://example.com/'', profile = ''chrome'', session_id = None,
        upstream_proxy = None, timeout = 30\<rparr>
       (Some [(''X-IDENTIFIER'', ''firefox'')])) ''X-IDENTIFIER''
     = Some ''firefox''"
  by (simp add: CycleTLSClient_make_headers_def AsyncCycleTLSClient_make_headers_def
      dict_update_def dict_get_def)

text \<open>
  C1 (amended). For every config and every extra-headers dictionary, the returned headers
  hold the target URL under \<open>X-URL\<close> and the profile identifier under \<open>X-IDENTIFIER\<close>
  unless the extra headers contain that key; the extra headers are merged last, so on a
  collision the caller's value is the one returned. This holds for the synchronous and
  for the asynchronous client.
\<close>

theorem make_headers_routing:
  assumes "wf_extra extra"
  shows "dict_get (CycleTLSClient_make_headers d c extra) ''X-URL''
           = (case extra_get extra ''X-URL'' of Some v \<Rightarrow> Some v | None \<Rightarrow> Some (url c))
       \<and> dict_get (CycleTLSClient_make_headers d c extra) ''X-IDENTIFIER''
           = (case extra_get extra ''X-IDENTIFIER'' of Some v \<Rightarrow> Some v
              | None \<Rightarrow> Some (profile c))
       \<and> dict_get (AsyncCycleTLSClient_make_headers d c extra) ''X-URL''
           = (case extra_get extra ''X-URL'' of Some v \<Rightarrow> Some v | None \<Rightarrow> Some (url c))
       \<and> dict_get (AsyncCycleTLSClient_make_headers d c extra) ''X-IDENTIFIER''
           = (case extra_get extra ''X-IDENTIFIER'' of Some v \<Rightarrow> Some v
              | None \<Rightarrow> Some (profile c))"
  using assms
  by (simp add: CycleTLSClient_make_headers_def AsyncCycleTLSClient_make_headers_def
      Let_def header_lookup split: option.split)

theorem make_headers_routing_witness:
  "wf_extra (Some [(''Accept'', ''application/json''), (''X-URL'', ''https://other.example/'')])
   \<and> dict_get (CycleTLSClient_make_headers 30
         \<lparr>url = ''https://example.com/'', profile = ''safari_ios'', session_id = Some ''s1'',
          upstream_proxy = None, timeout = 10\<rparr>
         (Some [(''Accept'', ''application/json''), (''X-URL'', ''https://other.example/'')]))
       ''X-URL'' = Some ''https://other.example/''
   \<and> dict_get (AsyncCycleTLSClient_make_headers 30
         \<lparr>url = ''https://example.com/'', profile = ''safari_ios'', session_id = Some ''s1'',
          upstream_proxy = None, timeout = 10\<rparr>
         (Some [(''Accept'', ''application/json''), (''X-URL'', ''https://other.example/'')]))
       ''X-IDENTIFIER'' = Some ''safari_ios''"
proof -
  let ?e = "Some [(''Accept'', ''application/json''), (''X-URL'', ''https://other.example/'')]"
  let ?c = "\<lparr>url = ''https://example.com/'', profile = ''safari_ios'', session_id = Some ''s1'',
          upstream_proxy = None, timeout = 10\<rparr>"
  have wf: "wf_extra ?e" by (simp add: is_dict_def)
  from make_headers_routing [OF wf, of 30 ?c] wf
  show ?thesis by (simp add: dict_get_def)
qed

text \<open>
  C6 (as stated, refuted). The claim says that \<open>X-TIMEOUT\<close> is in the assembled headers
  exactly when the config's timeout differs from the client default. With the timeout
  equal to the default 30 and the extra headers \<open>{"X-TIMEOUT": "1"}\<close>, the header is
  in the assembled headers, in both clients.
\<close>

theorem make_headers_timeout_from_extra:
  "\<not> (dict_get (CycleTLSClient_make_headers 30
            \<lparr>url = ''https://example.com/'', profile = ''chrome'', session_id = None,
             upstream_proxy = None, timeout = 30\<rparr>
            (Some [(''X-TIMEOUT'', ''1'')])) ''X-TIMEOUT'' \<noteq> None
        \<longleftrightarrow> timeout \<lparr>url = ''https://example.com/'', profile = ''chrome'', session_id = None,
                      upstream_proxy = None, timeout = 30\<rparr> \<noteq> 30)
   \<and> dict_get (AsyncCycleTLSClient_make_headers 30
            \<lparr>url = ''https://example.com/'', profile = ''chrome'', session_id = None,
             upstream_proxy = None, timeout = 30\<rparr>
            (Some [(''X-TIMEOUT'', ''1'')])) ''X-TIMEOUT'' = Some ''1''"
  by (simp add: CycleTLSClient_make_headers_def AsyncCycleTLSClient_make_headers_def
      dict_update_def dict_get_def)

text \<open>
  C6 (amended). When the caller's extra headers hold no \<open>X-TIMEOUT\<close> key, the header is
  in the assembled headers if and only if the config's timeout differs from the client
  default, and its value is then the decimal string of the config's timeout. An
  \<open>X-TIMEOUT\<close> key of the extra headers is merged last and is returned with the
  caller's value, whatever the timeout is. This holds for both clients.
\<close>

theorem make_headers_timeout_header:
  assumes "wf_extra extra"
  shows "dict_get (CycleTLSClient_make_headers d c extra) ''X-TIMEOUT''
           = (case extra_get extra ''X-TIMEOUT'' of
                Some v \<Rightarrow> Some v
              | None \<Rightarrow> if timeout c \<noteq> d then Some (str_int (timeout c)) else None)
       \<and> dict_get (AsyncCycleTLSClient_make_headers d c extra) ''X-TIMEOUT''
           = (case extra_get extra ''X-TIMEOUT'' of
                Some v \<Rightarrow> Some v
              | None \<Rightarrow> if timeout c \<noteq> d then Some (str_int (timeout c)) else None)"
  using assms
  by (simp add: CycleTLSClient_make_headers_def AsyncCycleTLSClient_make_headers_def
      Let_def header_lookup split: option.split)

theorem make_headers_timeout_header_witness:
  "wf_extra (Some [(''Accept'', ''application/json'')])
   \<and> dict_get (CycleTLSClient_make_headers 30
         \<lparr>url = ''https://example.com/'', profile = ''chrome'', session_id = None,
          upstream_proxy = None, timeout = 45\<rparr>
         (Some [(''Accept'', ''application/json'')])) ''X-TIMEOUT'' = Some ''45''
   \<and> dict_get (AsyncCycleTLSClient_make_headers 30
         \<lparr>url = ''https://example.com/'', profile = ''chrome'', session_id = None,
          upstream_proxy = None, timeout = 30\<rparr>
         (Some [(''Accept'', ''application/json'')])) ''X-TIMEOUT'' = None"
proof -
  let ?e = "Some [(''Accept'', ''application/json'')]"
  have wf: "wf_extra ?e" by (simp add: is_dict_def)
  have s: "str_int 45 = ''45''" by code_simp
  from make_headers_timeout_header [OF wf, of 30
         "\<lparr>url = ''https://example.com/'', profile = ''chrome'', session_id = None,
           upstream_proxy = None, timeout = 45\<rparr>"]
       make_headers_timeout_header [OF wf, of 30
         "\<lparr>url = ''https://example.com/'', profile = ''chrome'', session_id = None,
           upstream_proxy = None, timeout = 30\<rparr>"]
       wf s
  show ?thesis by (simp add: dict_get_def)
qed

text \<open>
  C9 (as stated, refuted). The claim says that \<open>X-SESSION-ID\<close> is in the assembled
  headers exactly when the config's session identifier is a non-empty string. With no
  session identifier and the extra headers \<open>{"X-SESSION-ID": "abc"}\<close>, the header is in
  the assembled headers, in both clients.
\<close>

theorem make_headers_session_from_extra:
  "\<not> (dict_get (CycleTLSClient_make_headers 30
            \<lparr>url = ''https://example.com/'', profile = ''chrome'', session_id = None,
             upstream_proxy = None, timeout = 30\<rparr>
            (Some [(''X-SESSION-ID'', ''abc'')])) ''X-SESSION-ID'' \<noteq> None
        \<longleftrightarrow> truthy_str (session_id \<lparr>url = ''https://example.com/'', profile = ''chrome'',
                      session_id = None, upstream_proxy = None, timeout = 30\<rparr>))
   \<and> dict_get (AsyncCycleTLSClient_make_headers 30
            \<lparr>url = ''https://example.com/'', profile = ''chrome'', session_id = Some [],
             upstream_proxy = None, timeout = 30\<rparr>
            (Some [(''X-SESSION-ID'', ''abc'')])) ''X-SESSION-ID'' = Some ''abc''"
  by (simp add: CycleTLSClient_make_headers_def AsyncCycleTLSClient_make_headers_def
      dict_update_def dict_get_def)

text \<open>
  C9 (amended). When the caller's extra headers hold no \<open>X-SESSION-ID\<close> key, the header
  is in the assembled headers if and only if the config's session identifier is a
  non-empty string, and its value is then that identifier. An \<open>X-SESSION-ID\<close> key of the
  extra headers is merged last and is returned with the caller's value. In every case
  the empty string as session identifier gives the same headers as no identifier at
  all. This holds for both clients.
\<close>

theorem make_headers_session_header:
  assumes "wf_extra extra"
  shows "dict_get (CycleTLSClient_make_headers d c extra) ''X-SESSION-ID''
           = (case extra_get extra ''X-SESSION-ID'' of
                Some v \<Rightarrow> Some v
              | None \<Rightarrow> if truthy_str (session_id c) then session_id c else None)
       \<and> dict_get (AsyncCycleTLSClient_make_headers d c extra) ''X-SESSION-ID''
           = (case extra_get extra ''X-SESSION-ID'' of
                Some v \<Rightarrow> Some v
              | None \<Rightarrow> if truthy_str (session_id c) then session_id c else None)
       \<and> CycleTLSClient_make_headers d (c\<lparr>session_id := Some []\<rparr>) extra
           = CycleTLSClient_make_headers d (c\<lparr>session_id := None\<rparr>) extra
       \<and> AsyncCycleTLSClient_make_headers d (c\<lparr>session_id := Some []\<rparr>) extra
           = AsyncCycleTLSClient_make_headers d (c\<lparr>session_id := None\<rparr>) extra"
  using assms
  by (auto simp add: CycleTLSClient_make_headers_def AsyncCycleTLSClient_make_headers_def
      Let_def header_lookup truthy_str_the split: option.split)

theorem make_headers_session_header_witness:
  "wf_extra None
   \<and> dict_get (CycleTLSClient_make_headers 30
         \<lparr>url = ''https://example.com/'', profile = ''chrome'', session_id = Some ''demo-session'',
          upstream_proxy = None, timeout = 30\<rparr> None) ''X-SESSION-ID'' = Some ''demo-session''
   \<and> dict_get (AsyncCycleTLSClient_make_headers 30
         \<lparr>url = ''https://example.com/'', profile = ''chrome'', session_id = Some [],
          upstream_proxy = None, timeout = 30\<rparr> None) ''X-SESSION-ID'' = None"
proof -
  have wf: "wf_extra None" by simp
  from make_headers_session_header [OF wf, of 30
         "\<lparr>url = ''https://example.com/'', profile = ''chrome'',
           session_id = Some ''demo-session'', upstream_proxy = None, timeout = 30\<rparr>"]
       make_headers_session_header [OF wf, of 30
         "\<lparr>url = ''https://example.com/'', profile = ''chrome'', session_id = Some [],
           upstream_proxy = None, timeout = 30\<rparr>"]
       wf
  show ?thesis by simp
qed

section \<open>Properties of the classifier and of the effective timeout\<close>

text \<open>
  C10. For a 400 response the marker \<open>Invalid identifier\<close> is looked for first: a body
  that holds it gives the invalid-profile error, whether or not it also holds a timeout
  marker. The timeout error is raised exactly for the 400 responses whose body holds
  \<open>timeout\<close> (in any letter case) and does not hold \<open>Invalid identifier\<close>.
\<close>

theorem handle_response_invalid_identifier_first:
  "(status_code r = 400 \<and> contains ''Invalid identifier'' (resp_text r) \<longrightarrow>
      handle_response r
        = Inl (CycleTLSInvalidProfileError (''Invalid browser profile: '' @ resp_text r)))
   \<and> (raised_timeout (handle_response r) \<longleftrightarrow>
        status_code r = 400 \<and> contains ''timeout'' (lower (resp_text r))
        \<and> \<not> contains ''Invalid identifier'' (resp_text r))"
  by (simp add: handle_response_def raises_HTTPError_def Let_def)

theorem handle_response_invalid_identifier_first_witness:
  "status_code \<lparr>status_code = 400, resp_text = ''Invalid identifier: Timeout'',
                 retry_after = False\<rparr> = 400
   \<and> contains ''Invalid identifier'' ''Invalid identifier: Timeout''
   \<and> contains ''timeout'' (lower ''Invalid identifier: Timeout'')
   \<and> handle_response \<lparr>status_code = 400, resp_text = ''Invalid identifier: Timeout'',
                      retry_after = False\<rparr>
       = Inl (CycleTLSInvalidProfileError
                ''Invalid browser profile: Invalid identifier: Timeout'')
   \<and> \<not> raised_timeout
         (handle_response \<lparr>status_code = 400, resp_text = ''Invalid identifier: Timeout'',
                           retry_after = False\<rparr>)"
proof -
  have a: "contains ''Invalid identifier'' ''Invalid identifier: Timeout''" by simp
  have b: "contains ''timeout'' (lower ''Invalid identifier: Timeout'')"
    by code_simp
  from handle_response_invalid_identifier_first
         [of "\<lparr>status_code = 400, resp_text = ''Invalid identifier: Timeout'',
               retry_after = False\<rparr>"] a b
  show ?thesis by simp
qed

text \<open>
  C5. For every positive declared timeout \<open>t\<close>, the timeout the transport receives is
  \<open>t + 5\<close>. In the synchronous client \<open>request\<close> makes one call of
  \<open>self.session.request\<close>, whose \<open>timeout\<close> argument is \<open>t + 5\<close>, and what \<open>request\<close>
  returns or raises, and the number of exchanges, are the transport's answer to that
  very call. In the asynchronous client (whose session is open) \<open>request\<close> makes one
  call of the session with \<open>ClientTimeout(total=t + 5)\<close>, and its result is the outcome
  of that very call.
\<close>

theorem effective_timeout_adds_buffer:
  assumes "0 < t"
  shows "(let call = \<lparr>req_method = m, req_url = proxy_url self,
                      req_headers = CycleTLSClient_make_headers (default_timeout self)
                                      (mk_ProxyConfig u p sid up t) h,
                      req_timeout = t + 5, req_kwargs = kw\<rparr>;
              got = session_request (retry_strategy self) env call
          in sent (CycleTLSClient_request self env m u p sid up (Some t) h kw) = [call]
             \<and> attempts (CycleTLSClient_request self env m u p sid up (Some t) h kw) = snd got
             \<and> result (CycleTLSClient_request self env m u p sid up (Some t) h kw)
                 = (case fst got of
                      Inr r \<Rightarrow> handle_response r
                    | Inl e \<Rightarrow> Inl (request_except t e)))
       \<and> (let call = \<lparr>req_method = m, req_url = aproxy_url aself,
                        req_headers = AsyncCycleTLSClient_make_headers (adefault_timeout aself)
                                        (mk_ProxyConfig u p sid up t) h,
                        req_timeout = t + 5, req_kwargs = kw\<rparr>
            in asent (AsyncCycleTLSClient_request (aenter aself) anet m u p sid up (Some t) h kw)
                 = [call]
               \<and> aresult (AsyncCycleTLSClient_request (aenter aself) anet m u p sid up (Some t)
                            h kw)
                 = arequest_outcome t (anet call))"
  using assms
  by (simp add: CycleTLSClient_request_def AsyncCycleTLSClient_request_def aenter_def
      mk_ProxyConfig_def Let_def split: sum.split)

text \<open>
  The example: a proxy that answers only a request made with the timeout 15, and lets
  every other request time out. With the declared timeout 10 both clients get the
  answer.
\<close>

theorem effective_timeout_adds_buffer_witness:
  "(0::int) < 10
   \<and> result (CycleTLSClient_request (CycleTLSClient_init ''http://localhost:8080'' 30 3)
        (proxy (\<lambda>call k. if req_timeout call = 15
                           then Responded \<lparr>status_code = 200, resp_text = ''ok'',
                                           retry_after = False\<rparr> None
                           else ReadTimedOut))
        ''GET'' ''https://httpbin.org/delay/1'' (ProfileEnum CHROME) None None (Some 10)
        None [])
       = Inr \<lparr>status_code = 200, resp_text = ''ok'', retry_after = False\<rparr>
   \<and> attempts (CycleTLSClient_request (CycleTLSClient_init ''http://localhost:8080'' 30 3)
        (proxy (\<lambda>call k. if req_timeout call = 15
                           then Responded \<lparr>status_code = 200, resp_text = ''ok'',
                                           retry_after = False\<rparr> None
                           else ReadTimedOut))
        ''GET'' ''https://httpbin.org/delay/1'' (ProfileEnum CHROME) None None (Some 10)
        None []) = 1
   \<and> aresult (AsyncCycleTLSClient_request
        (aenter (AsyncCycleTLSClient_init ''http://localhost:8080'' 30))
        (\<lambda>call. if req_timeout call = 15
                  then AioResponded \<lparr>status_code = 200, resp_text = ''ok'',
                                     retry_after = False\<rparr>
                  else AioTimedOut)
        ''GET'' ''https://httpbin.org/delay/1'' (ProfileEnum CHROME) None None (Some 10)
        None [])
       = Inr \<lparr>status_code = 200, resp_text = ''ok'', retry_after = False\<rparr>"
proof -
  let ?c = "CycleTLSClient_init ''http://localhost:8080'' 30 3"
  let ?ac = "AsyncCycleTLSClient_init ''http://localhost:8080'' 30"
  let ?ok = "\<lparr>status_code = 200, resp_text = ''ok'', retry_after = False\<rparr>"
  let ?env = "proxy (\<lambda>call k. if req_timeout call = 15 then Responded ?ok None
                               else ReadTimedOut)"
  let ?anet = "\<lambda>call. if req_timeout call = 15 then AioResponded ?ok else AioTimedOut"
  let ?call = "\<lparr>req_method = ''GET'', req_url = proxy_url ?c,
                 req_headers = CycleTLSClient_make_headers (default_timeout ?c)
                                 (mk_ProxyConfig ''https://httpbin.org/delay/1''
                                    (ProfileEnum CHROME) None None 10) None,
                 req_timeout = 10 + 5, req_kwargs = []\<rparr>"
  have pos: "(0::int) < 10" by simp
  have first: "exchange ?env ?call 0 = Responded ?ok None" by simp
  have nr: "\<not> is_retry (retry_strategy ?c) (req_method ?call) ?ok"
    by (simp add: is_retry_def init_fields)
  have acc: "accepted ?env ?call" by (simp add: proxy_accepts)
  have keep: "delivered ''GET'' ?ok = ?ok" by (simp add: delivered_keeps GET_keeps_body)
  from session_request_unretried [OF first nr no_Location_not_redirect acc] keep
  have got: "session_request (retry_strategy ?c) ?env ?call = (Inr ?ok, 1)" by simp
  have ok: "handle_response ?ok = Inr ?ok"
    by (simp add: handle_response_def raises_HTTPError_def)
  from effective_timeout_adds_buffer [OF pos, of "''GET''" ?c
         "''https://httpbin.org/delay/1''" "ProfileEnum CHROME" None None None "[]" ?env
         ?ac ?anet]
       got ok
  show ?thesis by (simp add: Let_def)
qed

section \<open>Properties of \<open>request\<close>: validation and retries\<close>










section \<open>Properties of \<open>health_check\<close>\<close>




section \<open>Properties of concurrent dispatch\<close>

text \<open>
  C7 (as stated, refuted). The claim says that in the event loop, too, the sequence of
  outcomes is returned in the order of the input positions whatever the order of
  completion. \<open>asyncio.gather\<close> is called without \<open>return_exceptions\<close>: with three
  tasks of which task 0 times out and task 1 meets a client error, no sequence is
  returned, and the exception that is raised is the one of the task that completes
  first: the timeout error when the tasks complete in the order 0, 1, 2 and the client
  error when they complete in the order 1, 0, 2.
\<close>

theorem async_dispatch_raises_first_completed:
  "mset [0, 1, 2] = mset [0..<3]
   \<and> mset [1, 0, 2] = mset [0..<3]
   \<and> async_dispatch 3 (aenter (AsyncCycleTLSClient_init ''http://localhost:8080'' 30))
        (\<lambda>call. if dict_get (req_headers call) ''X-SESSION-ID'' = Some ''async-session-0''
                 then AioTimedOut
                 else if dict_get (req_headers call) ''X-SESSION-ID'' = Some ''async-session-1''
                 then AioClientFailed
                 else AioResponded \<lparr>status_code = 200, resp_text = ''{}'',
                                    retry_after = False\<rparr>)
        [0, 1, 2]
       = Some (Inl (CycleTLSTimeoutError ''Request timed out after 30s''))
   \<and> async_dispatch 3 (aenter (AsyncCycleTLSClient_init ''http://localhost:8080'' 30))
        (\<lambda>call. if dict_get (req_headers call) ''X-SESSION-ID'' = Some ''async-session-0''
                 then AioTimedOut
                 else if dict_get (req_headers call) ''X-SESSION-ID'' = Some ''async-session-1''
                 then AioClientFailed
                 else AioResponded \<lparr>status_code = 200, resp_text = ''{}'',
                                    retry_after = False\<rparr>)
        [1, 0, 2]
       = Some (Inl (CycleTLSErrorOf ''Request error: '' ClientError))"
proof -
  let ?ac = "aenter (AsyncCycleTLSClient_init ''http://localhost:8080'' 30)"
  let ?anet = "\<lambda>call. if dict_get (req_headers call) ''X-SESSION-ID'' = Some ''async-session-0''
                 then AioTimedOut
                 else if dict_get (req_headers call) ''X-SESSION-ID'' = Some ''async-session-1''
                 then AioClientFailed
                 else AioResponded \<lparr>status_code = 200, resp_text = ''{}'',
                                    retry_after = False\<rparr>"
  have upt3: "[0..<3] = [0, 1, 2]" by (simp add: upt_rec)
  have s0: "str_nat 0 = ''0''" and s1: "str_nat 1 = ''1''" and s2: "str_nat 2 = ''2''"
    and s30: "str_int 30 = ''30''"
    by code_simp+
  from s1 have s1': "str_nat (Suc 0) = ''1''" by simp
  have task: "\<And>i. async_task ?ac ?anet i
                = arequest_outcome 30
                    (if ''async-session-'' @ str_nat i = ''async-session-0'' then AioTimedOut
                     else if ''async-session-'' @ str_nat i = ''async-session-1''
                     then AioClientFailed
                     else AioResponded \<lparr>status_code = 200, resp_text = ''{}'',
                                        retry_after = False\<rparr>)"
    by (simp add: async_task_def AsyncCycleTLSClient_request_def aenter_def
        AsyncCycleTLSClient_init_def AsyncCycleTLSClient_make_headers_def mk_ProxyConfig_def
        Let_def dict_get_set dict_get_Cons)
  have t0: "async_task ?ac ?anet 0 = Inl (CycleTLSTimeoutError ''Request timed out after 30s'')"
    by (simp add: task s0 s30)
  have t1: "async_task ?ac ?anet (Suc 0) = Inl (CycleTLSErrorOf ''Request error: '' ClientError)"
    by (simp add: task s1')
  have a: "mset [0, 1, 2] = mset [0..<3]" "mset [1, 0, 2] = mset [0..<3]"
    by (simp_all add: upt3)
  have b: "async_dispatch 3 ?ac ?anet [0, 1, 2]
             = Some (Inl (CycleTLSTimeoutError ''Request timed out after 30s''))"
    by (simp add: async_dispatch_def gather_def upt3 t0)
  have c: "async_dispatch 3 ?ac ?anet [1, 0, 2]
             = Some (Inl (CycleTLSErrorOf ''Request error: '' ClientError))"
    by (simp add: async_dispatch_def gather_def upt3 t1)
  from a b c show ?thesis by simp
qed

text \<open>
  C7 (amended). For every order in which the requests complete (any arrangement
  \<open>order\<close> of the positions \<open>0, ..., n - 1\<close>): in the thread pool the results are
  collected as they complete and handed back sorted, so the sequence is the one of the
  requests \<open>0, ..., n - 1\<close> in the order of the input positions, a request that raised
  being one of the results. In the event loop \<open>gather\<close> returns the responses in the
  order of the tasks when no request raised; when a request raised, no sequence is
  returned: \<open>gather\<close> raises the exception of the first task, in the order of
  completion, that raised. The source dispatches \<open>n = 10\<close> and \<open>n = 5\<close> requests.
\<close>

theorem dispatch_keeps_input_order:
  assumes "mset order = mset [0..<n]"
  shows "concurrent_dispatch n client env order = map (make_request client env) [0..<n]
       \<and> map fst (concurrent_dispatch n client env order) = [0..<n]
       \<and> async_dispatch n aclient anet order
           = Some (case first_failure (map (async_task aclient anet) [0..<n]) order of
                     Some e \<Rightarrow> Inl e
                   | None \<Rightarrow> Inr (map (\<lambda>i. projr (async_task aclient anet i)) [0..<n]))"
proof -
  have sync: "concurrent_dispatch n client env order = map (make_request client env) [0..<n]"
    by (rule concurrent_dispatch_perm [OF assms])
  then have ids: "map fst (concurrent_dispatch n client env order) = [0..<n]"
    by (simp add: fst_make_request comp_def map_idI)
  from assms have "mset order = mset [0..<length (map (async_task aclient anet) [0..<n])]"
    by simp
  from gather_perm [OF this]
  have "async_dispatch n aclient anet order
           = Some (case first_failure (map (async_task aclient anet) [0..<n]) order of
                     Some e \<Rightarrow> Inl e
                   | None \<Rightarrow> Inr (map (\<lambda>i. projr (async_task aclient anet i)) [0..<n]))"
    by (simp add: async_dispatch_def comp_def split: option.split)
  with sync ids show ?thesis by simp
qed

theorem dispatch_keeps_input_order_witness:
  "mset [2, 0, 1] = mset [0..<3]
   \<and> map fst (concurrent_results 3 (CycleTLSClient_init ''http://localhost:8080'' 30 3)
        (proxy_answering \<lparr>status_code = 200, resp_text = ''{}'', retry_after = False\<rparr>)
        [2, 0, 1]) = [2, 0, 1]
   \<and> map fst (concurrent_dispatch 3 (CycleTLSClient_init ''http://localhost:8080'' 30 3)
        (proxy_answering \<lparr>status_code = 200, resp_text = ''{}'', retry_after = False\<rparr>)
        [2, 0, 1]) = [0, 1, 2]
   \<and> async_dispatch 3 (aenter (AsyncCycleTLSClient_init ''http://localhost:8080'' 30))
        (\<lambda>call. AioResponded \<lparr>status_code = 200,
                                resp_text = the (dict_get (req_headers call) ''X-SESSION-ID''),
                                retry_after = False\<rparr>)
        [2, 0, 1]
       = Some (Inr [\<lparr>status_code = 200, resp_text = ''async-session-0'', retry_after = False\<rparr>,
                    \<lparr>status_code = 200, resp_text = ''async-session-1'', retry_after = False\<rparr>,
                    \<lparr>status_code = 200, resp_text = ''async-session-2'', retry_after = False\<rparr>])"
proof -
  let ?c = "CycleTLSClient_init ''http://localhost:8080'' 30 3"
  let ?env = "proxy_answering \<lparr>status_code = 200, resp_text = ''{}'', retry_after = False\<rparr>"
  let ?ac = "aenter (AsyncCycleTLSClient_init ''http://localhost:8080'' 30)"
  let ?anet = "\<lambda>call. AioResponded \<lparr>status_code = 200,
                  resp_text = the (dict_get (req_headers call) ''X-SESSION-ID''),
                  retry_after = False\<rparr>"
  have upt3: "[0..<3] = [0, 1, 2]" by (simp add: upt_rec)
  have perm: "mset [2, 0, 1] = mset [0..<3]" by (simp add: upt3)
  have s0: "str_nat 0 = ''0''" and s1: "str_nat 1 = ''1''" and s2: "str_nat 2 = ''2''"
    by code_simp+
  from s1 have s1': "str_nat (Suc 0) = ''1''" by simp
  have task: "\<And>i. async_task ?ac ?anet i
                = Inr \<lparr>status_code = 200, resp_text = ''async-session-'' @ str_nat i,
                       retry_after = False\<rparr>"
    by (simp add: async_task_def AsyncCycleTLSClient_request_def aenter_def
        AsyncCycleTLSClient_init_def AsyncCycleTLSClient_make_headers_def mk_ProxyConfig_def
        Let_def dict_get_set dict_get_Cons)
  have ok: "first_failure (map (async_task ?ac ?anet) [0..<3]) [2, 0, 1] = None"
    by (simp add: first_failure_def upt3 task)
  have collected: "map fst (concurrent_results 3 ?c ?env [2, 0, 1]) = [2, 0, 1]"
    using as_completed_perm [OF perm, of "make_request ?c ?env"]
    by (simp add: concurrent_results_def fst_make_request)
  from dispatch_keeps_input_order [OF perm, of ?c ?env ?ac ?anet] perm collected ok
  show ?thesis by (simp add: upt3 task s0 s1' s2 fst_make_request)
qed

end
